theory Spec2Isabelle
  imports Complex_Main
begin

section \<open>Values exchanged with the provider and the client\<close>

text \<open>
  A Python \<^verbatim>\<open>str\<close> is a sequence of Unicode code points, here a list of naturals;
  \<open>str\<close> gives the string of an ASCII literal.
\<close>

type_synonym pystr = "nat list"

definition str :: "string \<Rightarrow> pystr" where
  "str s = map of_char s"

text \<open>
  A Python \<^verbatim>\<open>float\<close>.  The parser accepts the literals \<^verbatim>\<open>NaN\<close>, \<^verbatim>\<open>Infinity\<close> and
  \<^verbatim>\<open>-Infinity\<close>, and gives infinity to a literal too large for a double, so the three
  special values are part of the data.  A finite float is taken by its value.
\<close>

datatype pyfloat = Finite real | PosInf | NegInf | NaN

text \<open>
  The handlers of \<^verbatim>\<open>main.py\<close> work on whatever \<^verbatim>\<open>resp.json()\<close> and
  \<^verbatim>\<open>request.get_json\<close> return: Python values built from JSON.  \<open>JInt\<close> is a Python
  \<^verbatim>\<open>int\<close> (unbounded) and \<open>JObj kvs\<close> the \<^verbatim>\<open>dict\<close> whose \<^verbatim>\<open>items()\<close> are \<open>kvs\<close>, in
  insertion order and with distinct keys.
\<close>

datatype json =
    JNull
  | JBool bool
  | JInt int
  | JFloat pyfloat
  | JStr pystr
  | JArr "json list"
  | JObj "(pystr \<times> json) list"

text \<open>The exceptions the handlers can meet, by class; their messages are not modelled.\<close>

datatype py_error =
    KeyError
  | TypeError
  | AttributeError
  | IndexError
  | OverflowError
  | UnicodeEncodeError
  | SqliteError
  | RequestException
  | JSONDecodeError

subsection \<open>The Python operations the handlers use\<close>

text \<open>\<^verbatim>\<open>x.get(k, d)\<close>: only a \<^verbatim>\<open>dict\<close> has the method.\<close>

fun py_get :: "json \<Rightarrow> pystr \<Rightarrow> json \<Rightarrow> py_error + json" where
  "py_get (JObj kvs) k d = Inr (case map_of kvs k of Some v \<Rightarrow> v | None \<Rightarrow> d)"
| "py_get _ k d = Inl AttributeError"

text \<open>\<^verbatim>\<open>x[k]\<close> for a string \<open>k\<close>: a missing key raises KeyError, and no other JSON value
  can be subscripted by a string.\<close>

fun py_getitem :: "json \<Rightarrow> pystr \<Rightarrow> py_error + json" where
  "py_getitem (JObj kvs) k = (case map_of kvs k of Some v \<Rightarrow> Inr v | None \<Rightarrow> Inl KeyError)"
| "py_getitem _ k = Inl TypeError"

text \<open>\<^verbatim>\<open>x[0]\<close>: the keys of a parsed JSON object are strings, so \<open>0\<close> is never among them.\<close>

fun py_index0 :: "json \<Rightarrow> py_error + json" where
  "py_index0 (JArr []) = Inl IndexError"
| "py_index0 (JArr (x # xs)) = Inr x"
| "py_index0 (JStr []) = Inl IndexError"
| "py_index0 (JStr (c # cs)) = Inr (JStr [c])"
| "py_index0 (JObj kvs) = Inl KeyError"
| "py_index0 _ = Inl TypeError"

text \<open>Truth value of a Python object, as \<^verbatim>\<open>or\<close> and \<^verbatim>\<open>not\<close> test it; NaN and the
  infinities are true.\<close>

fun py_truthy :: "json \<Rightarrow> bool" where
  "py_truthy JNull = False"
| "py_truthy (JBool b) = b"
| "py_truthy (JInt i) = (i \<noteq> 0)"
| "py_truthy (JFloat f) = (f \<noteq> Finite 0)"
| "py_truthy (JStr s) = (s \<noteq> [])"
| "py_truthy (JArr xs) = (xs \<noteq> [])"
| "py_truthy (JObj kvs) = (kvs \<noteq> [])"

text \<open>
  The code points that \<^verbatim>\<open>str.strip()\<close> and \<^verbatim>\<open>str.split()\<close> take as whitespace, which
  are those of \<^verbatim>\<open>str.isspace\<close>: tab to carriage return, the separators \<open>0x1c\<close> to
  \<open>0x1f\<close>, the space, and the Unicode spaces and line separators.
\<close>

definition is_space :: "nat \<Rightarrow> bool" where
  "is_space n =
     ((0x9 \<le> n \<and> n \<le> 0xD) \<or> (0x1C \<le> n \<and> n \<le> 0x20) \<or> n = 0x85 \<or> n = 0xA0 \<or>
      n = 0x1680 \<or> (0x2000 \<le> n \<and> n \<le> 0x200A) \<or> n = 0x2028 \<or> n = 0x2029 \<or>
      n = 0x202F \<or> n = 0x205F \<or> n = 0x3000)"

definition strip :: "pystr \<Rightarrow> pystr" where
  "strip s = rev (dropWhile is_space (rev (dropWhile is_space s)))"

text \<open>\<^verbatim>\<open>x.strip()\<close> on a value that need not be a string.\<close>

fun py_strip :: "json \<Rightarrow> py_error + pystr" where
  "py_strip (JStr s) = Inr (strip s)"
| "py_strip _ = Inl AttributeError"

text \<open>\<^verbatim>\<open>x.split()[0]\<close>: the first maximal run of non-whitespace characters; a string
  without one splits into the empty list, whose index 0 is out of range.\<close>

fun py_split0 :: "json \<Rightarrow> py_error + pystr" where
  "py_split0 (JStr s) =
     (case dropWhile is_space s of
        [] \<Rightarrow> Inl IndexError
      | c # cs \<Rightarrow> Inr (takeWhile (\<lambda>x. \<not> is_space x) (c # cs)))"
| "py_split0 _ = Inl AttributeError"

text \<open>Iterating with \<^verbatim>\<open>for item in raw\<close>: a list gives its elements, a
  \<^verbatim>\<open>dict\<close> its keys, a string its characters; nothing else is iterable.\<close>

fun py_iter :: "json \<Rightarrow> py_error + json list" where
  "py_iter (JArr xs) = Inr xs"
| "py_iter (JObj kvs) = Inr (map (\<lambda>kv. JStr (fst kv)) kvs)"
| "py_iter (JStr s) = Inr (map (\<lambda>c. JStr [c]) s)"
| "py_iter _ = Inl TypeError"

subsection \<open>Comparison\<close>

text \<open>\<^verbatim>\<open>x < y\<close> on floats: false whenever one of them is NaN.\<close>

fun fl_lt :: "pyfloat \<Rightarrow> pyfloat \<Rightarrow> bool" where
  "fl_lt (Finite a) (Finite b) = (a < b)"
| "fl_lt (Finite a) PosInf = True"
| "fl_lt NegInf (Finite b) = True"
| "fl_lt NegInf PosInf = True"
| "fl_lt x y = False"

text \<open>Numbers compare by value, whatever their representation (an \<^verbatim>\<open>int\<close> is compared
  exactly, without rounding); \<^verbatim>\<open>bool\<close> is a subclass of \<^verbatim>\<open>int\<close>.\<close>

fun py_num :: "json \<Rightarrow> pyfloat option" where
  "py_num (JBool b) = Some (Finite (if b then 1 else 0))"
| "py_num (JInt i) = Some (Finite (of_int i))"
| "py_num (JFloat f) = Some f"
| "py_num _ = None"

fun str_lt :: "pystr \<Rightarrow> pystr \<Rightarrow> bool" where
  "str_lt [] [] = False"
| "str_lt [] (y # ys) = True"
| "str_lt (x # xs) [] = False"
| "str_lt (x # xs) (y # ys) = (if x = y then str_lt xs ys else x < y)"

text \<open>
  The test a list comparison makes on two elements, and a dictionary comparison on two
  values: identical or equal.  It never raises on these values.  Lists are the same
  elementwise, dictionaries when they have the same keys with the same values.  Every
  NaN the parser returns is one object, so here, unlike under \<^verbatim>\<open>==\<close>, NaN is the same
  as NaN.
\<close>

fun py_same :: "json \<Rightarrow> json \<Rightarrow> bool"
  and py_same_list :: "json list \<Rightarrow> json list \<Rightarrow> bool"
  and py_same_in :: "pystr \<Rightarrow> json \<Rightarrow> (pystr \<times> json) list \<Rightarrow> bool"
  and py_same_sub :: "(pystr \<times> json) list \<Rightarrow> (pystr \<times> json) list \<Rightarrow> bool"
where
  "py_same (JArr xs) (JArr ys) = py_same_list xs ys"
| "py_same (JObj a) (JObj b) = (length a = length b \<and> py_same_sub a b)"
| "py_same (JStr s) (JStr t) = (s = t)"
| "py_same JNull JNull = True"
| "py_same a b = (case (py_num a, py_num b) of (Some x, Some y) \<Rightarrow> x = y | _ \<Rightarrow> False)"
| "py_same_list [] [] = True"
| "py_same_list [] (y # ys) = False"
| "py_same_list (x # xs) [] = False"
| "py_same_list (x # xs) (y # ys) = (py_same x y \<and> py_same_list xs ys)"
| "py_same_in k v [] = False"
| "py_same_in k v (kw # b) = (if k = fst kw then py_same v (snd kw) else py_same_in k v b)"
| "py_same_sub [] b = True"
| "py_same_sub (kv # a) b = (py_same_in (fst kv) (snd kv) b \<and> py_same_sub a b)"

text \<open>\<^verbatim>\<open>a < b\<close>: defined between numbers, between strings and between lists (at the
  first pair of elements that are not the same, else by length); every other pair raises
  TypeError.\<close>

fun py_lt :: "json \<Rightarrow> json \<Rightarrow> py_error + bool"
  and py_lt_list :: "json list \<Rightarrow> json list \<Rightarrow> py_error + bool"
where
  "py_lt (JArr xs) (JArr ys) = py_lt_list xs ys"
| "py_lt (JStr s) (JStr t) = Inr (str_lt s t)"
| "py_lt a b = (case (py_num a, py_num b) of (Some x, Some y) \<Rightarrow> Inr (fl_lt x y) | _ \<Rightarrow> Inl TypeError)"
| "py_lt_list [] [] = Inr False"
| "py_lt_list [] (y # ys) = Inr True"
| "py_lt_list (x # xs) [] = Inr False"
| "py_lt_list (x # xs) (y # ys) = (if py_same x y then py_lt_list xs ys else py_lt x y)"

text \<open>\<^verbatim>\<open>min(cur, temp)\<close> and \<^verbatim>\<open>max(cur, temp)\<close>: the second argument replaces the
  first only when it is strictly smaller (\<^verbatim>\<open>temp < cur\<close>), respectively strictly greater
  (\<^verbatim>\<open>temp > cur\<close>, which on these values is \<^verbatim>\<open>cur < temp\<close>).\<close>

definition py_min :: "json \<Rightarrow> json \<Rightarrow> py_error + json" where
  "py_min cur temp = (case py_lt temp cur of Inl e \<Rightarrow> Inl e | Inr b \<Rightarrow> Inr (if b then temp else cur))"

definition py_max :: "json \<Rightarrow> json \<Rightarrow> py_error + json" where
  "py_max cur temp = (case py_lt cur temp of Inl e \<Rightarrow> Inl e | Inr b \<Rightarrow> Inr (if b then temp else cur))"

section \<open>The daily aggregation\<close>

text \<open>
  \<^verbatim>\<open>daily\<close> is a \<^verbatim>\<open>dict\<close> from a date to \<^verbatim>\<open>{"min": ..., "max": ...}\<close>.  A Python
  dictionary keeps its keys in insertion order, which the final list comprehension
  relies on, so it is an association list here; \<open>dict_set\<close> is \<^verbatim>\<open>d[k] = v\<close>: a new key
  goes to the end, an old one keeps its place.
\<close>

type_synonym daily = "(pystr \<times> json \<times> json) list"

fun dict_set :: "'k \<Rightarrow> 'v \<Rightarrow> ('k \<times> 'v) list \<Rightarrow> ('k \<times> 'v) list" where
  "dict_set k v [] = [(k, v)]"
| "dict_set k v (p # ps) = (if fst p = k then (k, v) # ps else p # dict_set k v ps)"

text \<open>One round of the loop of \<^verbatim>\<open>daily_weather\<close>.\<close>

definition daily_step :: "daily \<Rightarrow> json \<Rightarrow> py_error + daily" where
  "daily_step daily item =
     (case py_getitem item (str ''dt_txt'') of Inl e \<Rightarrow> Inl e | Inr ts \<Rightarrow>
     (case py_split0 ts of Inl e \<Rightarrow> Inl e | Inr date \<Rightarrow>
     (case py_getitem item (str ''main'') of Inl e \<Rightarrow> Inl e | Inr m \<Rightarrow>
     (case py_getitem m (str ''temp'') of Inl e \<Rightarrow> Inl e | Inr temp \<Rightarrow>
     (case map_of daily date of
        None \<Rightarrow> Inr (dict_set date (temp, temp) daily)
      | Some cur \<Rightarrow>
         (case py_min (fst cur) temp of Inl e \<Rightarrow> Inl e | Inr lo \<Rightarrow>
         (case py_max (snd cur) temp of Inl e \<Rightarrow> Inl e | Inr hi \<Rightarrow>
            Inr (dict_set date (lo, hi) daily))))))))"

fun daily_loop :: "daily \<Rightarrow> json list \<Rightarrow> py_error + daily" where
  "daily_loop daily [] = Inr daily"
| "daily_loop daily (item # items) =
     (case daily_step daily item of Inl e \<Rightarrow> Inl e | Inr daily' \<Rightarrow> daily_loop daily' items)"

text \<open>The list comprehension over \<^verbatim>\<open>daily.items()\<close>.\<close>

definition summary :: "pystr \<times> json \<times> json \<Rightarrow> json" where
  "summary kv =
     JObj [(str ''date'', JStr (fst kv)), (str ''min'', fst (snd kv)), (str ''max'', snd (snd kv))]"

definition daily_list :: "daily \<Rightarrow> json list" where
  "daily_list daily = map summary daily"

text \<open>From \<^verbatim>\<open>raw\<close> to \<^verbatim>\<open>daily_list\<close>: the aggregation as a whole.\<close>

definition aggregate :: "json \<Rightarrow> py_error + json list" where
  "aggregate raw =
     (case py_iter raw of Inl e \<Rightarrow> Inl e | Inr items \<Rightarrow>
     (case daily_loop [] items of Inl e \<Rightarrow> Inl e | Inr daily \<Rightarrow> Inr (daily_list daily)))"

section \<open>The world around a request\<close>

text \<open>
  The provider, the clock and the database engine are the environment of one request:
  \<open>provider env ep city\<close> is what \<^verbatim>\<open>requests.get\<close> gives for the endpoint and the
  parameter \<^verbatim>\<open>q\<close> (\<open>NoReply\<close> when it raises: no connection, timeout), a reply carries
  its status code and the value of \<^verbatim>\<open>resp.json()\<close> (\<open>None\<close> when the content is not JSON
  and the call raises), and \<open>now env\<close> is the formatted \<^verbatim>\<open>datetime.now()\<close>.

  Two functions of SQLite, which is not part of the sources, are parameters:
  \<open>text_number env s\<close> is the number SQLite reads in the text \<open>s\<close> when it stores it in
  a column of numeric affinity (\<open>None\<close> when the text is not a numeric literal and stays
  text), and \<open>real_text env f\<close> is the text it renders of a float stored in a column of
  text affinity.
\<close>

datatype endpoint = Weather | Forecast

datatype reply = NoReply | Reply int "json option"

record env =
  provider :: "endpoint \<Rightarrow> pystr \<Rightarrow> reply"
  now :: pystr
  text_number :: "pystr \<Rightarrow> pyfloat option"
  real_text :: "pyfloat \<Rightarrow> pystr"

text \<open>
  The state is the table, in insertion order, and the log of the calls made to the
  provider, which the program itself does not keep: it is there so that "no call is made"
  can be stated.  A cell of the table holds null, a float or a text.
\<close>

record weather_row =
  row_id :: int
  row_city :: json
  row_temperature :: json
  row_description :: json
  row_dt :: json

record state =
  weather :: "weather_row list"
  calls :: "(endpoint \<times> pystr) list"

text \<open>
  What a handler returns, with its status code.  \<open>Json v\<close> is \<^verbatim>\<open>jsonify(v)\<close> for the
  Python value \<open>v\<close>.  A template is not rendered (the templates are not part of the
  sources): \<open>Page t ctx\<close> is \<^verbatim>\<open>render_template(t, **ctx)\<close>.  \<open>ErrorText e\<close> is the text
  \<^verbatim>\<open>f"Error: {e}"\<close> and \<open>ErrorJson e\<close> the object \<^verbatim>\<open>{"error": str(e)}\<close> for an
  exception of class \<open>e\<close>; \<open>Framework\<close> is the error page Flask itself produces for an
  exception that leaves the handler.
\<close>

datatype body =
    Json json
  | Page string "(string \<times> json) list"
  | Text pystr
  | ErrorText py_error
  | ErrorJson py_error
  | Framework

type_synonym response = "body \<times> int"

definition quoted :: "pystr \<Rightarrow> pystr" where
  "quoted s = [0x27] @ s @ [0x27]"

subsection \<open>The table\<close>

text \<open>
  Binding a Python value to a parameter of a statement: \<^verbatim>\<open>sqlite3\<close> takes \<^verbatim>\<open>None\<close>,
  integers that fit 64 bits (a \<^verbatim>\<open>bool\<close> is one), floats and strings that can be encoded
  in UTF-8, that is without a surrogate code point, and raises on anything else.
\<close>

definition encodable :: "pystr \<Rightarrow> bool" where
  "encodable s = list_all (\<lambda>c. c < 0xD800 \<or> 0xDFFF < c) s"

fun sqlite_bind :: "json \<Rightarrow> py_error + json" where
  "sqlite_bind (JInt i) =
     (if - (2 ^ 63) \<le> i \<and> i < 2 ^ 63 then Inr (JInt i) else Inl OverflowError)"
| "sqlite_bind (JStr s) = (if encodable s then Inr (JStr s) else Inl UnicodeEncodeError)"
| "sqlite_bind (JArr xs) = Inl SqliteError"
| "sqlite_bind (JObj kvs) = Inl SqliteError"
| "sqlite_bind v = Inr v"

text \<open>
  The double nearest to an integer, ties going to the even significand: an integer below
  \<open>2 ^ 53\<close> in magnitude is a double, a larger one loses its low bits.  \<open>shift53 a\<close> is
  the number of bits lost.
\<close>

fun shift53 :: "nat \<Rightarrow> nat" where
  "shift53 a = (if a < 2 ^ 53 then 0 else Suc (shift53 (a div 2)))"

declare shift53.simps [simp del]

definition round53 :: "nat \<Rightarrow> nat" where
  "round53 a =
     (let q = 2 ^ shift53 a; m = a div q; r = a mod q
      in (if q < 2 * r \<or> (2 * r = q \<and> odd m) then m + 1 else m) * q)"

definition to_double :: "int \<Rightarrow> real" where
  "to_double i = (if i < 0 then - real (round53 (nat (- i))) else real (round53 (nat i)))"

text \<open>The decimal numeral of an integer, as text.\<close>

fun digits :: "nat \<Rightarrow> pystr" where
  "digits n = (if n < 10 then [48 + n] else digits (n div 10) @ [48 + n mod 10])"

declare digits.simps [simp del]

definition decimal :: "int \<Rightarrow> pystr" where
  "decimal i = (if i < 0 then 45 # digits (nat (- i)) else digits (nat i))"

text \<open>
  What a cell holds of the value bound to it.  The column \<^verbatim>\<open>temperature REAL\<close> turns an
  integer into the nearest float and a text that reads as a number into that number; the
  columns \<^verbatim>\<open>city\<close>, \<^verbatim>\<open>description\<close> and \<^verbatim>\<open>dt\<close>, declared \<^verbatim>\<open>TEXT\<close>, turn a number
  into its text.  In both, null stays null, and NaN is stored as null.
\<close>

fun real_affinity :: "env \<Rightarrow> json \<Rightarrow> json" where
  "real_affinity env JNull = JNull"
| "real_affinity env (JBool b) = JFloat (Finite (if b then 1 else 0))"
| "real_affinity env (JInt i) = JFloat (Finite (to_double i))"
| "real_affinity env (JFloat f) = (if f = NaN then JNull else JFloat f)"
| "real_affinity env (JStr s) = (case text_number env s of None \<Rightarrow> JStr s | Some f \<Rightarrow> JFloat f)"
| "real_affinity env v = v"

fun text_affinity :: "env \<Rightarrow> json \<Rightarrow> json" where
  "text_affinity env JNull = JNull"
| "text_affinity env (JBool b) = JStr (str (if b then ''1'' else ''0''))"
| "text_affinity env (JInt i) = JStr (decimal i)"
| "text_affinity env (JFloat f) = (if f = NaN then JNull else JStr (real_text env f))"
| "text_affinity env v = v"

text \<open>\<^verbatim>\<open>id INTEGER PRIMARY KEY AUTOINCREMENT\<close>: a new row gets an identifier above
  every one in the table (rows are never deleted, so above every one ever given).\<close>

definition next_id :: "weather_row list \<Rightarrow> int" where
  "next_id tbl = fold max (map row_id tbl) 0 + 1"

text \<open>\<^verbatim>\<open>INSERT INTO weather (city, temperature, description, dt) VALUES (?, ?, ?, ?)\<close>
  followed by the commit.  The city and the time are strings in every caller; the
  parameters are bound in order, and the row holds what its columns make of them.\<close>

definition db_insert ::
  "env \<Rightarrow> weather_row list \<Rightarrow> pystr \<Rightarrow> json \<Rightarrow> json \<Rightarrow> pystr \<Rightarrow> py_error + weather_row list" where
  "db_insert env tbl c t d time =
     (case sqlite_bind (JStr c) of Inl e \<Rightarrow> Inl e | Inr cv \<Rightarrow>
     (case sqlite_bind t of Inl e \<Rightarrow> Inl e | Inr tv \<Rightarrow>
     (case sqlite_bind d of Inl e \<Rightarrow> Inl e | Inr dv \<Rightarrow>
     (case sqlite_bind (JStr time) of Inl e \<Rightarrow> Inl e | Inr timev \<Rightarrow>
        Inr (tbl @ [\<lparr>row_id = next_id tbl, row_city = text_affinity env cv,
                     row_temperature = real_affinity env tv,
                     row_description = text_affinity env dv,
                     row_dt = text_affinity env timev\<rparr>])))))"

text \<open>\<^verbatim>\<open>SELECT city, temperature, description, dt FROM weather ORDER BY id DESC LIMIT 6\<close>:
  the rows chosen, and the dictionary \<^verbatim>\<open>dict(row)\<close> made of each.\<close>

definition db_recent :: "weather_row list \<Rightarrow> weather_row list" where
  "db_recent tbl = take 6 (rev (sort_key row_id tbl))"

definition row_dict :: "weather_row \<Rightarrow> json" where
  "row_dict r = JObj [(str ''city'', row_city r), (str ''temperature'', row_temperature r),
                      (str ''description'', row_description r), (str ''dt'', row_dt r)]"

section \<open>The handlers\<close>

text \<open>
  Each handler takes the environment, its input and the state, and returns its response
  and the new state.  The body of a \<^verbatim>\<open>try\<close> is a function into \<open>py_error + _\<close>; the
  handler turns \<open>Inl e\<close> into the response of its \<^verbatim>\<open>except\<close> clause.  The call to the
  provider is logged before the body runs, since the body begins with it.
\<close>

definition called :: "endpoint \<Rightarrow> pystr \<Rightarrow> state \<Rightarrow> state" where
  "called ep city st = st\<lparr>calls := calls st @ [(ep, city)]\<rparr>"

subsection \<open>\<^verbatim>\<open>POST /api/weather\<close>\<close>

definition api_weather_try :: "env \<Rightarrow> pystr \<Rightarrow> state \<Rightarrow> py_error + response \<times> state" where
  "api_weather_try env city st =
     (case provider env Weather city of
        NoReply \<Rightarrow> Inl RequestException
      | Reply status content \<Rightarrow>
          if status \<noteq> 200
          then Inr ((Json (JObj [(str ''error'', JStr (str ''City not found or API error''))]), 404), st)
          else
           (case content of None \<Rightarrow> Inl JSONDecodeError | Some js \<Rightarrow>
           (case py_get js (str ''main'') (JObj []) of Inl e \<Rightarrow> Inl e | Inr m \<Rightarrow>
           (case py_get m (str ''temp'') JNull of Inl e \<Rightarrow> Inl e | Inr temperature \<Rightarrow>
           (case py_get js (str ''weather'') JNull of Inl e \<Rightarrow> Inl e | Inr w \<Rightarrow>
           (case py_index0 (if py_truthy w then w else JArr [JObj []]) of Inl e \<Rightarrow> Inl e | Inr w0 \<Rightarrow>
           (case py_get w0 (str ''description'') (JStr []) of Inl e \<Rightarrow> Inl e | Inr description \<Rightarrow>
           (case db_insert env (weather st) city temperature description (now env) of
              Inl e \<Rightarrow> Inl e
            | Inr tbl \<Rightarrow>
                Inr ((Json (JObj [(str ''city'', JStr city), (str ''temperature'', temperature),
                                  (str ''description'', description),
                                  (str ''dt'', JStr (now env))]), 200),
                     st\<lparr>weather := tbl\<rparr>)))))))))"

text \<open>The request body is \<open>None\<close> when it is not JSON: \<^verbatim>\<open>get_json(force=True)\<close> then
  aborts with 400.  The two lines before the \<^verbatim>\<open>try\<close> are not protected, so an exception
  there leaves the handler.\<close>

definition api_weather :: "env \<Rightarrow> json option \<Rightarrow> state \<Rightarrow> response \<times> state" where
  "api_weather env request st =
     (case request of None \<Rightarrow> ((Framework, 400), st) | Some data \<Rightarrow>
     (case py_get data (str ''city'') (JStr []) of Inl e \<Rightarrow> ((Framework, 500), st) | Inr c \<Rightarrow>
     (case py_strip c of Inl e \<Rightarrow> ((Framework, 500), st) | Inr city \<Rightarrow>
        if city = [] then ((Json (JObj [(str ''error'', JStr (str ''City required''))]), 400), st)
        else
         (case api_weather_try env city (called Weather city st) of
            Inl e \<Rightarrow> ((ErrorJson e, 500), called Weather city st)
          | Inr r \<Rightarrow> r))))"

subsection \<open>\<^verbatim>\<open>GET /weather/<city>\<close>\<close>

definition show_weather_page_try :: "env \<Rightarrow> pystr \<Rightarrow> state \<Rightarrow> py_error + response \<times> state" where
  "show_weather_page_try env city st =
     (case provider env Weather city of
        NoReply \<Rightarrow> Inl RequestException
      | Reply status content \<Rightarrow>
          if status \<noteq> 200
          then Inr ((Text (str ''No data found for '' @ quoted city), 404), st)
          else
           (case content of None \<Rightarrow> Inl JSONDecodeError | Some js \<Rightarrow>
           (case py_getitem js (str ''main'') of Inl e \<Rightarrow> Inl e | Inr m \<Rightarrow>
           (case py_getitem m (str ''temp'') of Inl e \<Rightarrow> Inl e | Inr temperature \<Rightarrow>
           (case py_getitem js (str ''weather'') of Inl e \<Rightarrow> Inl e | Inr w \<Rightarrow>
           (case py_index0 w of Inl e \<Rightarrow> Inl e | Inr w0 \<Rightarrow>
           (case py_getitem w0 (str ''description'') of Inl e \<Rightarrow> Inl e | Inr description \<Rightarrow>
           (case db_insert env (weather st) city temperature description (now env) of
              Inl e \<Rightarrow> Inl e
            | Inr tbl \<Rightarrow>
                Inr ((Page ''result.html''
                        [(''city'', JStr city), (''temp'', temperature),
                         (''desc'', description), (''dt'', JStr (now env))], 200),
                     st\<lparr>weather := tbl\<rparr>)))))))))"

definition show_weather_page :: "env \<Rightarrow> pystr \<Rightarrow> state \<Rightarrow> response \<times> state" where
  "show_weather_page env city st =
     (case show_weather_page_try env city (called Weather city st) of
        Inl e \<Rightarrow> ((ErrorText e, 500), called Weather city st)
      | Inr r \<Rightarrow> r)"

subsection \<open>\<^verbatim>\<open>GET /weather/<city>/today\<close>\<close>

text \<open>The default icon is the sun emoji: the code points U+2600 and U+FE0F.\<close>

definition sun_icon :: pystr where
  "sun_icon = [0x2600, 0xFE0F]"

definition today_weather_try :: "env \<Rightarrow> pystr \<Rightarrow> state \<Rightarrow> py_error + response \<times> state" where
  "today_weather_try env city st =
     (case provider env Weather city of
        NoReply \<Rightarrow> Inl RequestException
      | Reply status content \<Rightarrow>
          if status \<noteq> 200
          then Inr ((Text (str ''No data found for '' @ quoted city), 404), st)
          else
           (case content of None \<Rightarrow> Inl JSONDecodeError | Some js \<Rightarrow>
           (case py_get js (str ''main'') (JObj []) of Inl e \<Rightarrow> Inl e | Inr m \<Rightarrow>
           (case py_get m (str ''temp_max'') JNull of Inl e \<Rightarrow> Inl e | Inr today_high \<Rightarrow>
           (case py_get m (str ''temp_min'') JNull of Inl e \<Rightarrow> Inl e | Inr today_low \<Rightarrow>
           (case py_get js (str ''weather'') JNull of Inl e \<Rightarrow> Inl e | Inr w \<Rightarrow>
           (case py_index0 (if py_truthy w then w else JArr [JObj []]) of Inl e \<Rightarrow> Inl e | Inr w0 \<Rightarrow>
           (case py_get w0 (str ''description'') (JStr sun_icon) of Inl e \<Rightarrow> Inl e | Inr icon \<Rightarrow>
              Inr ((Page ''today.html''
                      [(''city'', JStr city), (''today_high'', today_high),
                       (''today_low'', today_low), (''icon'', icon)], 200),
                   st)))))))))"

definition today_weather :: "env \<Rightarrow> pystr \<Rightarrow> state \<Rightarrow> response \<times> state" where
  "today_weather env city st =
     (case today_weather_try env city (called Weather city st) of
        Inl e \<Rightarrow> ((ErrorText e, 500), called Weather city st)
      | Inr r \<Rightarrow> r)"

subsection \<open>\<^verbatim>\<open>GET /weather/<city>/hourly\<close>\<close>

text \<open>The slice \<^verbatim>\<open>x[:8]\<close>: of a list or of a string; a \<^verbatim>\<open>dict\<close> and the scalars
  raise (TypeError, or KeyError for a \<^verbatim>\<open>dict\<close> from Python 3.12 on).\<close>

fun py_slice8 :: "json \<Rightarrow> py_error + json" where
  "py_slice8 (JArr xs) = Inr (JArr (take 8 xs))"
| "py_slice8 (JStr s) = Inr (JStr (take 8 s))"
| "py_slice8 _ = Inl TypeError"

definition hourly_weather_try :: "env \<Rightarrow> pystr \<Rightarrow> state \<Rightarrow> py_error + response \<times> state" where
  "hourly_weather_try env city st =
     (case provider env Forecast city of
        NoReply \<Rightarrow> Inl RequestException
      | Reply status content \<Rightarrow>
          if status \<noteq> 200
          then Inr ((Text (str ''No hourly data found for '' @ quoted city), 404), st)
          else
           (case content of None \<Rightarrow> Inl JSONDecodeError | Some js \<Rightarrow>
           (case py_get js (str ''list'') (JArr []) of Inl e \<Rightarrow> Inl e | Inr l \<Rightarrow>
           (case py_slice8 l of Inl e \<Rightarrow> Inl e | Inr data \<Rightarrow>
              Inr ((Page ''hourly.html'' [(''city'', JStr city), (''data'', data)], 200), st)))))"

definition hourly_weather :: "env \<Rightarrow> pystr \<Rightarrow> state \<Rightarrow> response \<times> state" where
  "hourly_weather env city st =
     (case hourly_weather_try env city (called Forecast city st) of
        Inl e \<Rightarrow> ((ErrorText e, 500), called Forecast city st)
      | Inr r \<Rightarrow> r)"

subsection \<open>\<^verbatim>\<open>GET /weather/<city>/daily\<close> and \<^verbatim>\<open>/weekly\<close>\<close>

definition daily_weather_try :: "env \<Rightarrow> pystr \<Rightarrow> state \<Rightarrow> py_error + response \<times> state" where
  "daily_weather_try env city st =
     (case provider env Forecast city of
        NoReply \<Rightarrow> Inl RequestException
      | Reply status content \<Rightarrow>
          if status \<noteq> 200
          then Inr ((Text (str ''No daily data found for '' @ quoted city), 404), st)
          else
           (case content of None \<Rightarrow> Inl JSONDecodeError | Some js \<Rightarrow>
           (case py_get js (str ''list'') (JArr []) of Inl e \<Rightarrow> Inl e | Inr raw \<Rightarrow>
           (case aggregate raw of Inl e \<Rightarrow> Inl e | Inr data \<Rightarrow>
              Inr ((Page ''daily.html'' [(''city'', JStr city), (''data'', JArr data)], 200), st)))))"

definition daily_weather :: "env \<Rightarrow> pystr \<Rightarrow> state \<Rightarrow> response \<times> state" where
  "daily_weather env city st =
     (case daily_weather_try env city (called Forecast city st) of
        Inl e \<Rightarrow> ((ErrorText e, 500), called Forecast city st)
      | Inr r \<Rightarrow> r)"

definition weekly_weather :: "env \<Rightarrow> pystr \<Rightarrow> state \<Rightarrow> response \<times> state" where
  "weekly_weather env city st = daily_weather env city st"

subsection \<open>\<^verbatim>\<open>GET /api/history\<close>\<close>

definition api_history :: "state \<Rightarrow> response \<times> state" where
  "api_history st = ((Json (JArr (map row_dict (db_recent (weather st)))), 200), st)"

section \<open>The vocabulary of the specification\<close>

text \<open>
  The specification speaks of weather samples, of the date component of a sample and of
  its temperature.  On an entry of the forecast list, the date component is what the loop
  takes as \<^verbatim>\<open>date\<close> and the temperature what it takes as \<^verbatim>\<open>temp\<close>; an entry is a
  weather sample when both are there and the temperature is a number, which for the
  parser includes the infinities and NaN.
\<close>

definition date_of :: "json \<Rightarrow> pystr option" where
  "date_of item =
     (case py_getitem item (str ''dt_txt'') of Inl e \<Rightarrow> None | Inr ts \<Rightarrow>
     (case py_split0 ts of Inl e \<Rightarrow> None | Inr d \<Rightarrow> Some d))"

definition temp_of :: "json \<Rightarrow> json option" where
  "temp_of item =
     (case py_getitem item (str ''main'') of Inl e \<Rightarrow> None | Inr m \<Rightarrow>
     (case py_getitem m (str ''temp'') of Inl e \<Rightarrow> None | Inr t \<Rightarrow> Some t))"

fun is_number :: "json \<Rightarrow> bool" where
  "is_number (JInt i) = True"
| "is_number (JFloat f) = True"
| "is_number _ = False"

fun is_nan :: "json \<Rightarrow> bool" where
  "is_nan (JFloat NaN) = True"
| "is_nan _ = False"

fun is_dict :: "json \<Rightarrow> bool" where
  "is_dict (JObj kvs) = True"
| "is_dict _ = False"

definition weather_sample :: "json \<Rightarrow> bool" where
  "weather_sample item =
     (date_of item \<noteq> None \<and> (case temp_of item of None \<Rightarrow> False | Some t \<Rightarrow> is_number t))"

text \<open>The order of two temperatures, as \<^verbatim>\<open><=\<close> and \<^verbatim>\<open><\<close> decide it: nothing is at most
  NaN or below it, and NaN is at most nothing.\<close>

fun fl_le :: "pyfloat \<Rightarrow> pyfloat \<Rightarrow> bool" where
  "fl_le NaN y = False"
| "fl_le x NaN = False"
| "fl_le NegInf y = True"
| "fl_le x PosInf = True"
| "fl_le (Finite a) (Finite b) = (a \<le> b)"
| "fl_le x y = False"

definition num_le :: "json \<Rightarrow> json \<Rightarrow> bool" where
  "num_le a b = (case (py_num a, py_num b) of (Some x, Some y) \<Rightarrow> fl_le x y | _ \<Rightarrow> False)"

definition num_lt :: "json \<Rightarrow> json \<Rightarrow> bool" where
  "num_lt a b = (case (py_num a, py_num b) of (Some x, Some y) \<Rightarrow> fl_lt x y | _ \<Rightarrow> False)"

text \<open>The distinct elements of a list, each at the place of its first occurrence.\<close>

fun first_occurrences :: "'a list \<Rightarrow> 'a list" where
  "first_occurrences [] = []"
| "first_occurrences (x # xs) = x # first_occurrences (filter (\<lambda>y. y \<noteq> x) xs)"

text \<open>The temperature of the first entry of a date.\<close>

definition first_temp :: "json list \<Rightarrow> pystr \<Rightarrow> json option" where
  "first_temp items d =
     (case find (\<lambda>i. date_of i = Some d) items of None \<Rightarrow> None | Some i \<Rightarrow> temp_of i)"

text \<open>
  What the loop maintains.  After the entries \<open>seen\<close>, an entry \<open>(date, lo, hi)\<close> of
  \<^verbatim>\<open>daily\<close> holds two numbers, each the temperature of a seen sample of that date, and
  they are around the first temperature of the date: when that is NaN, both are that NaN,
  since no comparison with NaN succeeds; otherwise it lies between them.  The keys of
  \<^verbatim>\<open>daily\<close> are the dates seen, each once.
\<close>

definition around :: "json \<Rightarrow> json \<Rightarrow> json \<Rightarrow> bool" where
  "around t0 lo hi = (if is_nan t0 then lo = t0 \<and> hi = t0 else num_le lo t0 \<and> num_le t0 hi)"

definition entry_ok :: "json list \<Rightarrow> pystr \<times> json \<times> json \<Rightarrow> bool" where
  "entry_ok seen e =
     (is_number (fst (snd e)) \<and> is_number (snd (snd e)) \<and>
      (\<exists>i \<in> set seen. date_of i = Some (fst e) \<and> temp_of i = Some (fst (snd e))) \<and>
      (\<exists>i \<in> set seen. date_of i = Some (fst e) \<and> temp_of i = Some (snd (snd e))) \<and>
      (\<exists>t0. first_temp seen (fst e) = Some t0 \<and> around t0 (fst (snd e)) (snd (snd e))))"

definition loop_inv :: "json list \<Rightarrow> daily \<Rightarrow> bool" where
  "loop_inv seen daily =
     (distinct (map fst daily) \<and> (\<forall>e \<in> set daily. entry_ok seen e) \<and>
      set (map fst daily) = {d. \<exists>i \<in> set seen. date_of i = Some d})"

section \<open>Concrete worlds\<close>

text \<open>A provider that gives the same reply to every call, at a fixed time, and the state
  of a new installation: they are the inputs at which the theorems below are instantiated.
  None of these inputs stores a text in the temperature column or a float in a text
  column, so the two functions of the engine are applied at none of them; they are fixed
  as the constant functions of the values they have on the empty text and on zero.\<close>

definition answering :: "reply \<Rightarrow> env" where
  "answering r =
     \<lparr>provider = (\<lambda>ep city. r), now = str ''04-Nov-2026 07:01:00 PM'',
      text_number = (\<lambda>s. None), real_text = (\<lambda>f. str ''0.0'')\<rparr>"

definition fresh :: state where
  "fresh = \<lparr>weather = [], calls = []\<rparr>"

text \<open>An entry of the forecast list with the two fields the aggregation reads, and some
  forecast lists.\<close>

definition forecast_item :: "pystr \<Rightarrow> json \<Rightarrow> json" where
  "forecast_item ts t = JObj [(str ''dt_txt'', JStr ts), (str ''main'', JObj [(str ''temp'', t)])]"

definition two_days :: "json list" where
  "two_days = [forecast_item (str ''2026-11-04 09:00:00'') (JFloat (Finite 7.5)),
               forecast_item (str ''2026-11-04 12:00:00'') (JInt 11),
               forecast_item (str ''2026-11-05 00:00:00'') (JFloat (Finite 3.25)),
               forecast_item (str ''2026-11-04 15:00:00'') (JFloat (Finite 9))]"

definition nan_first :: "json list" where
  "nan_first = [forecast_item (str ''2026-11-04 09:00:00'') (JFloat NaN),
                forecast_item (str ''2026-11-04 12:00:00'') (JInt 5)]"

definition three_days :: "json list" where
  "three_days = [forecast_item (str ''2026-11-06 21:00:00'') (JInt 4),
                 forecast_item (str ''2026-11-05 00:00:00'') (JInt 2),
                 forecast_item (str ''2026-11-06 00:00:00'') (JInt 1),
                 forecast_item (str ''2026-11-07 03:00:00'') (JInt 0),
                 forecast_item (str ''2026-11-05 03:00:00'') (JInt 3)]"

definition ten_entries :: "json list" where
  "ten_entries = map JInt [1, 2, 3, 4, 5, 6, 7, 8, 9, 10]"

text \<open>A table of seven rows, inserted in the order of their identifiers.\<close>

definition logged :: state where
  "logged =
     \<lparr>weather = map (\<lambda>i. \<lparr>row_id = i, row_city = JStr (str ''Oslo''),
                           row_temperature = JFloat (Finite (of_int i)),
                           row_description = JStr (str ''rain''),
                           row_dt = JStr (str ''04-Nov-2026 07:01:00 PM'')\<rparr>) [1, 2, 3, 4, 5, 6, 7],
      calls = []\<rparr>"

section \<open>Lemmas\<close>

subsection \<open>Strings\<close>

lemma str_inject [simp]: "(str s = str t) = (s = t)"
  by (simp add: str_def inj_map_eq_map inj_def)

lemma str_Nil [simp]: "str [] = []"
  by (simp add: str_def)

lemma str_eq_Nil [simp]: "(str s = []) = (s = [])"
  by (simp add: str_def)

subsection \<open>Numbers\<close>

lemma fl_lt_le: "fl_lt x y \<Longrightarrow> fl_le x y"
  by (cases x; cases y) simp_all

lemma fl_le_trans: "fl_le x y \<Longrightarrow> fl_le y z \<Longrightarrow> fl_le x z"
  by (cases x; cases y; cases z) simp_all

lemma fl_le_refl: "x \<noteq> NaN \<Longrightarrow> fl_le x x"
  by (cases x) simp_all

lemma num_le_refl: "is_number a \<Longrightarrow> \<not> is_nan a \<Longrightarrow> num_le a a"
proof (cases a)
  case (JFloat f)
  assume "\<not> is_nan a"
  with JFloat have "f \<noteq> NaN" by auto
  with JFloat show ?thesis by (simp add: num_le_def fl_le_refl)
qed (simp_all add: num_le_def)

lemma num_le_trans: "num_le a b \<Longrightarrow> num_le b c \<Longrightarrow> num_le a c"
  by (auto simp: num_le_def split: option.splits intro: fl_le_trans)

lemma num_lt_le: "num_lt a b \<Longrightarrow> num_le a b"
  by (auto simp: num_lt_def num_le_def split: option.splits intro: fl_lt_le)

lemma num_lt_nan: "is_nan a \<or> is_nan b \<Longrightarrow> \<not> num_lt a b"
proof -
  have l: "\<not> fl_lt NaN y" for y by simp
  have r: "\<not> fl_lt x NaN" for x by (cases x) simp_all
  have a: "is_nan c \<Longrightarrow> py_num c = Some NaN" for c by (cases c rule: is_nan.cases) simp_all
  assume "is_nan a \<or> is_nan b"
  then show ?thesis using l r a by (auto simp: num_lt_def split: option.splits)
qed

lemma py_lt_numbers: "is_number a \<Longrightarrow> is_number b \<Longrightarrow> py_lt a b = Inr (num_lt a b)"
  by (cases a; cases b) (simp_all add: num_lt_def)

lemma py_min_numbers:
  "is_number cur \<Longrightarrow> is_number t \<Longrightarrow> py_min cur t = Inr (if num_lt t cur then t else cur)"
  by (simp add: py_min_def py_lt_numbers)

lemma py_max_numbers:
  "is_number cur \<Longrightarrow> is_number t \<Longrightarrow> py_max cur t = Inr (if num_lt cur t then t else cur)"
  by (simp add: py_max_def py_lt_numbers)

lemma round53_exact: "a < 2 ^ 53 \<Longrightarrow> round53 a = a"
  by (simp add: round53_def shift53.simps)

lemma to_double_exact: "\<bar>i\<bar> < 2 ^ 53 \<Longrightarrow> to_double i = of_int i"
proof (cases "i < 0")
  case True
  assume "\<bar>i\<bar> < 2 ^ 53"
  with True have "nat (- i) < 2 ^ 53" by (simp add: nat_less_iff)
  with True show ?thesis by (simp add: to_double_def round53_exact)
next
  case False
  assume "\<bar>i\<bar> < 2 ^ 53"
  with False have "nat i < 2 ^ 53" by (simp add: nat_less_iff)
  with False show ?thesis by (simp add: to_double_def round53_exact)
qed

text \<open>The largest integer that can be bound is stored as \<open>2 ^ 63\<close>.\<close>

lemma shift53_largest: "shift53 9223372036854775807 = 10"
  by (simp add: shift53.simps)

lemma to_double_largest: "to_double (2 ^ 63 - 1) = 2 ^ 63"
  by (simp add: to_double_def round53_def shift53_largest)

subsection \<open>One round of the loop on a weather sample\<close>

lemma weather_sampleD:
  assumes "weather_sample item"
  obtains d t where "date_of item = Some d" "temp_of item = Some t" "is_number t"
  using assms by (auto simp: weather_sample_def split: option.splits)

lemma daily_step_sample:
  assumes "date_of item = Some d" and "temp_of item = Some t"
  shows "daily_step daily item =
           (case map_of daily d of
              None \<Rightarrow> Inr (dict_set d (t, t) daily)
            | Some cur \<Rightarrow>
               (case py_min (fst cur) t of Inl e \<Rightarrow> Inl e | Inr lo \<Rightarrow>
               (case py_max (snd cur) t of Inl e \<Rightarrow> Inl e | Inr hi \<Rightarrow>
                  Inr (dict_set d (lo, hi) daily))))"
  using assms by (auto simp: daily_step_def date_of_def temp_of_def split: sum.splits)

lemma dict_set_keys:
  "map fst (dict_set k v ps) = (if k \<in> set (map fst ps) then map fst ps else map fst ps @ [k])"
  by (induction ps) auto

lemma dict_set_set:
  "distinct (map fst ps) \<Longrightarrow> set (dict_set k v ps) = insert (k, v) {p \<in> set ps. fst p \<noteq> k}"
  by (induction ps) (auto simp: rev_image_eqI)

lemma find_append_Some: "find P xs = Some x \<Longrightarrow> find P (xs @ ys) = Some x"
  by (induction xs) (auto split: if_splits)

lemma find_append_None: "find P xs = None \<Longrightarrow> find P (xs @ ys) = find P ys"
  by (induction xs) (auto split: if_splits)

lemma first_temp_append:
  "first_temp seen d = Some t0 \<Longrightarrow> first_temp (seen @ items) d = Some t0"
  by (auto simp: first_temp_def find_append_Some split: option.splits)

lemma first_temp_new:
  assumes "\<forall>i \<in> set seen. date_of i \<noteq> Some d" and "date_of item = Some d"
  shows "first_temp (seen @ [item]) d = temp_of item"
proof -
  from assms(1) have "find (\<lambda>i. date_of i = Some d) seen = None"
    by (simp add: find_None_iff)
  then have "find (\<lambda>i. date_of i = Some d) (seen @ [item]) = Some item"
    using assms(2) by (simp add: find_append_None)
  then show ?thesis by (simp add: first_temp_def)
qed

lemma entry_ok_other:
  assumes ok: "entry_ok seen e"
  shows "entry_ok (seen @ [item]) e"
proof -
  from ok obtain t0 where t0: "first_temp seen (fst e) = Some t0"
    "around t0 (fst (snd e)) (snd (snd e))"
    unfolding entry_ok_def by blast
  from t0(1) have "first_temp (seen @ [item]) (fst e) = Some t0" by (rule first_temp_append)
  with t0(2) have "\<exists>t0. first_temp (seen @ [item]) (fst e) = Some t0 \<and>
         around t0 (fst (snd e)) (snd (snd e))" by blast
  moreover from ok have "is_number (fst (snd e))" "is_number (snd (snd e))"
    "\<exists>i \<in> set (seen @ [item]). date_of i = Some (fst e) \<and> temp_of i = Some (fst (snd e))"
    "\<exists>i \<in> set (seen @ [item]). date_of i = Some (fst e) \<and> temp_of i = Some (snd (snd e))"
    unfolding entry_ok_def by auto
  ultimately show ?thesis unfolding entry_ok_def by blast
qed

lemma entry_ok_new:
  assumes "date_of item = Some d" "temp_of item = Some t" "is_number t"
    and "\<forall>i \<in> set seen. date_of i \<noteq> Some d"
  shows "entry_ok (seen @ [item]) (d, t, t)"
proof -
  from first_temp_new [OF assms(4) assms(1)] assms(2)
  have "first_temp (seen @ [item]) d = Some t" by simp
  moreover have "around t t t"
    using assms(3) by (simp add: around_def num_le_refl)
  ultimately show ?thesis using assms(1,2,3) unfolding entry_ok_def by auto
qed

lemma around_update:
  assumes b: "around t0 lo hi"
  shows "around t0 (if num_lt t lo then t else lo) (if num_lt hi t then t else hi)"
proof (cases "is_nan t0")
  case True
  with b have "lo = t0" "hi = t0" by (simp_all add: around_def)
  with True have "\<not> num_lt t lo" "\<not> num_lt hi t" by (simp_all add: num_lt_nan)
  with b show ?thesis by simp
next
  case False
  with b have le: "num_le lo t0" "num_le t0 hi" by (simp_all add: around_def)
  have "num_le (if num_lt t lo then t else lo) t0"
  proof (cases "num_lt t lo")
    case True
    then have "num_le t lo" by (rule num_lt_le)
    from this le(1) have "num_le t t0" by (rule num_le_trans)
    with True show ?thesis by simp
  next
    case False
    with le(1) show ?thesis by simp
  qed
  moreover have "num_le t0 (if num_lt hi t then t else hi)"
  proof (cases "num_lt hi t")
    case True
    then have "num_le hi t" by (rule num_lt_le)
    with le(2) have "num_le t0 t" by (rule num_le_trans)
    with True show ?thesis by simp
  next
    case False
    with le(2) show ?thesis by simp
  qed
  ultimately show ?thesis using False by (simp add: around_def)
qed

lemma entry_ok_update:
  assumes ok: "entry_ok seen (d, lo, hi)"
    and item: "date_of item = Some d" "temp_of item = Some t" "is_number t"
  shows "entry_ok (seen @ [item])
           (d, if num_lt t lo then t else lo, if num_lt hi t then t else hi)"
proof -
  let ?lo = "if num_lt t lo then t else lo" and ?hi = "if num_lt hi t then t else hi"
  from ok have nums: "is_number lo" "is_number hi" by (simp_all add: entry_ok_def)
  from ok obtain t0 where t0: "first_temp seen d = Some t0" and b: "around t0 lo hi"
    by (auto simp: entry_ok_def)
  have 1: "is_number ?lo" "is_number ?hi" using nums item(3) by simp_all
  have 2: "\<exists>i \<in> set (seen @ [item]). date_of i = Some d \<and> temp_of i = Some ?lo"
    using ok item by (auto simp: entry_ok_def)
  have 3: "\<exists>i \<in> set (seen @ [item]). date_of i = Some d \<and> temp_of i = Some ?hi"
    using ok item by (auto simp: entry_ok_def)
  have 4: "first_temp (seen @ [item]) d = Some t0" using t0 by (rule first_temp_append)
  have 5: "around t0 ?lo ?hi" using b by (rule around_update)
  from 1 2 3 4 5 show ?thesis unfolding entry_ok_def by simp
qed

lemma daily_step_inv:
  assumes inv: "loop_inv seen daily" and sample: "weather_sample item"
  shows "\<exists>daily'. daily_step daily item = Inr daily' \<and> loop_inv (seen @ [item]) daily'"
proof -
  from sample obtain d t where item: "date_of item = Some d" "temp_of item = Some t" "is_number t"
    by (rule weather_sampleD)
  from inv have dist: "distinct (map fst daily)"
    and oks: "\<And>e. e \<in> set daily \<Longrightarrow> entry_ok seen e"
    and keys: "set (map fst daily) = {d. \<exists>i \<in> set seen. date_of i = Some d}"
    by (simp_all add: loop_inv_def)
  have others: "entry_ok (seen @ [item]) e" if "e \<in> set daily" for e
    using oks [OF that] by (rule entry_ok_other)
  have keys': "set (map fst (dict_set d v daily)) = {k. \<exists>i \<in> set (seen @ [item]). date_of i = Some k}"
    for v
    using keys item(1) by (auto simp: dict_set_keys)
  have dist': "distinct (map fst (dict_set d v daily))" for v
    using dist by (simp add: dict_set_keys)
  show ?thesis
  proof (cases "map_of daily d")
    case None
    then have "d \<notin> set (map fst daily)" by (simp add: map_of_eq_None_iff)
    with keys have "\<forall>i \<in> set seen. date_of i \<noteq> Some d" by auto
    with item have new: "entry_ok (seen @ [item]) (d, t, t)" by (intro entry_ok_new)
    have "loop_inv (seen @ [item]) (dict_set d (t, t) daily)"
      unfolding loop_inv_def using dist' keys' new others
      by (auto simp: dict_set_set [OF dist])
    moreover have "daily_step daily item = Inr (dict_set d (t, t) daily)"
      using None by (simp add: daily_step_sample [OF item(1,2)])
    ultimately show ?thesis by blast
  next
    case (Some cur)
    obtain lo hi where cur: "cur = (lo, hi)" by (cases cur)
    from Some cur have mem: "(d, lo, hi) \<in> set daily" by (auto dest: map_of_SomeD)
    from oks [OF mem] have ok: "entry_ok seen (d, lo, hi)" .
    then have nums: "is_number lo" "is_number hi" by (simp_all add: entry_ok_def)
    let ?lo = "if num_lt t lo then t else lo" and ?hi = "if num_lt hi t then t else hi"
    have step: "daily_step daily item = Inr (dict_set d (?lo, ?hi) daily)"
      using Some cur nums item(3)
      by (simp add: daily_step_sample [OF item(1,2)] py_min_numbers py_max_numbers)
    have upd: "entry_ok (seen @ [item]) (d, ?lo, ?hi)"
      using ok item by (rule entry_ok_update)
    have "loop_inv (seen @ [item]) (dict_set d (?lo, ?hi) daily)"
      unfolding loop_inv_def using dist' keys' upd others
      by (auto simp: dict_set_set [OF dist])
    with step show ?thesis by blast
  qed
qed

lemma daily_loop_inv:
  assumes "loop_inv seen daily" and "\<forall>item \<in> set items. weather_sample item"
  shows "\<exists>daily'. daily_loop daily items = Inr daily' \<and> loop_inv (seen @ items) daily'"
  using assms
proof (induction items arbitrary: seen daily)
  case Nil
  then show ?case by simp
next
  case (Cons item items)
  from Cons.prems obtain d1 where d1: "daily_step daily item = Inr d1" "loop_inv (seen @ [item]) d1"
    using daily_step_inv [of seen daily item] by auto
  from Cons.IH [OF d1(2)] Cons.prems(2)
  obtain d2 where "daily_loop d1 items = Inr d2" "loop_inv ((seen @ [item]) @ items) d2"
    by auto
  with d1(1) show ?case by simp
qed

subsection \<open>The keys of \<^verbatim>\<open>daily\<close>\<close>

lemma first_occurrences_set: "set (first_occurrences xs) = set xs"
  by (induction xs rule: first_occurrences.induct) auto

lemma first_occurrences_distinct: "distinct (first_occurrences xs)"
  by (induction xs rule: first_occurrences.induct) (auto simp: first_occurrences_set)

lemma daily_step_keys:
  assumes "date_of item = Some d" and "daily_step daily item = Inr daily'"
  shows "map fst daily' = (if d \<in> set (map fst daily) then map fst daily else map fst daily @ [d])"
proof -
  from assms obtain v where "daily' = dict_set d v daily"
    by (auto simp: daily_step_def date_of_def split: sum.splits option.splits)
  then show ?thesis by (simp only: dict_set_keys)
qed

lemma daily_loop_keys:
  assumes "\<forall>item \<in> set items. date_of item \<noteq> None" and "daily_loop daily items = Inr daily'"
  shows "map fst daily' =
           map fst daily @
           first_occurrences (filter (\<lambda>d. d \<notin> set (map fst daily)) (List.map_filter date_of items))"
  using assms
proof (induction items arbitrary: daily)
  case Nil
  then show ?case by (simp add: List.map_filter_simps)
next
  case (Cons item items)
  from Cons.prems(1) obtain d where d: "date_of item = Some d" by auto
  from Cons.prems(2) obtain d1 where d1: "daily_step daily item = Inr d1" "daily_loop d1 items = Inr daily'"
    by (auto split: sum.splits)
  have k1: "map fst d1 = (if d \<in> set (map fst daily) then map fst daily else map fst daily @ [d])"
    using d d1(1) by (rule daily_step_keys)
  have IH: "map fst daily' =
      map fst d1 @ first_occurrences (filter (\<lambda>x. x \<notin> set (map fst d1)) (List.map_filter date_of items))"
    using Cons.IH [OF _ d1(2)] Cons.prems(1) by simp
  have mf: "List.map_filter date_of (item # items) = d # List.map_filter date_of items"
    using d by (simp add: List.map_filter_simps)
  show ?case
  proof (cases "d \<in> set (map fst daily)")
    case True
    with IH k1 mf show ?thesis by simp
  next
    case False
    have "filter (\<lambda>y. y \<noteq> d) (filter (\<lambda>x. x \<notin> set (map fst daily)) ds) =
          filter (\<lambda>x. x \<notin> set (map fst daily @ [d])) ds" for ds
      by (induction ds) auto
    with False IH k1 mf show ?thesis by simp
  qed
qed

text \<open>On a timestamp made of a date, a space and a time, the date component is the date.\<close>

lemma date_of_timestamp:
  assumes "d \<noteq> []" and "\<forall>c \<in> set d. \<not> is_space c"
  shows "date_of (forecast_item (d @ 32 # rest) t) = Some d"
proof -
  from assms obtain c cs where d: "d = c # cs" by (cases d) auto
  with assms(2) have "dropWhile is_space (d @ 32 # rest) = d @ 32 # rest" by simp
  moreover have "takeWhile (\<lambda>x. \<not> is_space x) (d @ 32 # rest) = d"
    using assms(2) by (simp add: takeWhile_append2 is_space_def)
  ultimately show ?thesis using d by (simp add: date_of_def forecast_item_def)
qed

subsection \<open>The table\<close>

lemma db_recent_length: "length (db_recent tbl) = min 6 (length tbl)"
  by (simp add: db_recent_def)

lemma db_recent_subset: "set (db_recent tbl) \<subseteq> set tbl"
  using set_take_subset [of 6 "rev (sort_key row_id tbl)"] by (simp add: db_recent_def)

lemma ids_descending:
  assumes "distinct (map row_id tbl)"
  shows "sorted_wrt (\<lambda>a b. row_id a > row_id b) (rev (sort_key row_id tbl))"
proof -
  have "sorted (map row_id (sort_key row_id tbl))" by simp
  moreover from assms have "distinct (map row_id (sort_key row_id tbl))"
    by (simp add: distinct_map)
  ultimately have "sorted_wrt (<) (map row_id (sort_key row_id tbl))"
    by (simp add: strict_sorted_iff)
  then have "sorted_wrt (\<lambda>a b. row_id a < row_id b) (sort_key row_id tbl)"
    by (simp add: sorted_wrt_map)
  then show ?thesis by (simp add: sorted_wrt_rev)
qed

lemma db_recent_descending:
  assumes "distinct (map row_id tbl)"
  shows "sorted_wrt (\<lambda>a b. row_id a > row_id b) (db_recent tbl)"
  unfolding db_recent_def using ids_descending [OF assms] by (rule sorted_wrt_take)

lemma db_recent_newest:
  assumes "distinct (map row_id tbl)" and "r \<in> set tbl" and "r \<notin> set (db_recent tbl)"
    and "q \<in> set (db_recent tbl)"
  shows "row_id r < row_id q"
proof -
  let ?ys = "rev (sort_key row_id tbl)"
  have split: "?ys = take 6 ?ys @ drop 6 ?ys" by simp
  from assms(2) have "r \<in> set ?ys" by simp
  then have "r \<in> set (take 6 ?ys) \<or> r \<in> set (drop 6 ?ys)"
    using split by (metis Un_iff set_append)
  with assms(3) have r: "r \<in> set (drop 6 ?ys)" by (simp add: db_recent_def)
  from assms(4) have q: "q \<in> set (take 6 ?ys)" by (simp add: db_recent_def)
  from ids_descending [OF assms(1)]
  have "sorted_wrt (\<lambda>a b. row_id a > row_id b) (take 6 ?ys @ drop 6 ?ys)" by simp
  with r q show ?thesis unfolding sorted_wrt_append by blast
qed

lemma db_recent_insertion_order:
  assumes "sorted_wrt (<) (map row_id tbl)"
  shows "db_recent tbl = take 6 (rev tbl)"
proof -
  from assms have "sorted (map row_id tbl)" by (simp add: strict_sorted_iff)
  then have "sort_key row_id tbl = tbl" by (rule sort_key_id_if_sorted)
  then show ?thesis by (simp add: db_recent_def)
qed

lemma next_id_above: "r \<in> set tbl \<Longrightarrow> row_id r < next_id tbl"
proof -
  have "\<And>a. (\<forall>x \<in> set xs. x \<le> fold max xs a) \<and> a \<le> fold max xs (a::int)" for xs
  proof (induction xs)
    case Nil
    show ?case by simp
  next
    case (Cons x xs)
    have 1: "\<forall>y\<in>set xs. y \<le> fold max xs (max x a)" and 2: "max x a \<le> fold max xs (max x a)"
      using Cons [of "max x a"] by auto
    from 2 have "x \<le> fold max xs (max x a)" "a \<le> fold max xs (max x a)" by auto
    with 1 show ?case by simp
  qed
  then have "\<forall>x \<in> set (map row_id tbl). x \<le> fold max (map row_id tbl) 0" by blast
  then show "r \<in> set tbl \<Longrightarrow> row_id r < next_id tbl" by (auto simp: next_id_def)
qed

lemma db_insert_ascending:
  assumes "sorted_wrt (<) (map row_id tbl)" and "db_insert env tbl c t d time = Inr tbl'"
  shows "sorted_wrt (<) (map row_id tbl')"
proof -
  from assms(2) obtain r where "tbl' = tbl @ [r]" "row_id r = next_id tbl"
    by (auto simp: db_insert_def split: sum.splits)
  with assms(1) next_id_above [of _ tbl] show ?thesis
    by (auto simp: sorted_wrt_append)
qed

text \<open>A row is inserted only after the provider has answered 200 with a JSON body.\<close>

lemma api_weather_try_rows:
  assumes "api_weather_try env city st = Inr (r, st')" and "weather st' \<noteq> weather st"
  shows "\<exists>js. provider env Weather city = Reply 200 (Some js)"
proof (cases "provider env Weather city")
  case NoReply
  with assms show ?thesis by (simp add: api_weather_try_def)
next
  case (Reply status content)
  show ?thesis
  proof (cases "status = 200")
    case True
    with Reply assms show ?thesis by (cases content) (simp_all add: api_weather_try_def)
  next
    case False
    with Reply assms show ?thesis by (auto simp: api_weather_try_def)
  qed
qed

lemma show_weather_page_try_rows:
  assumes "show_weather_page_try env city st = Inr (r, st')" and "weather st' \<noteq> weather st"
  shows "\<exists>js. provider env Weather city = Reply 200 (Some js)"
proof (cases "provider env Weather city")
  case NoReply
  with assms show ?thesis by (simp add: show_weather_page_try_def)
next
  case (Reply status content)
  show ?thesis
  proof (cases "status = 200")
    case True
    with Reply assms show ?thesis by (cases content) (simp_all add: show_weather_page_try_def)
  next
    case False
    with Reply assms show ?thesis by (auto simp: show_weather_page_try_def)
  qed
qed

lemma api_weather_rows:
  assumes "weather (snd (api_weather env request st)) \<noteq> weather st"
  shows "\<exists>city js. provider env Weather city = Reply 200 (Some js)"
proof -
  from assms obtain data c city where
    "request = Some data" "py_get data (str ''city'') (JStr []) = Inr c" "py_strip c = Inr city"
    "city \<noteq> []"
    by (auto simp: api_weather_def split: option.splits sum.splits if_splits)
  then have run: "api_weather env request st =
          (case api_weather_try env city (called Weather city st) of
             Inl e \<Rightarrow> ((ErrorJson e, 500), called Weather city st) | Inr r \<Rightarrow> r)"
    by (simp add: api_weather_def)
  show ?thesis
  proof (cases "api_weather_try env city (called Weather city st)")
    case (Inl e)
    with run assms show ?thesis by (simp add: called_def)
  next
    case (Inr p)
    obtain r st' where p: "p = (r, st')" by (cases p)
    with Inr run assms have "weather st' \<noteq> weather (called Weather city st)"
      by (simp add: called_def)
    with Inr p show ?thesis using api_weather_try_rows by blast
  qed
qed

lemma show_weather_page_rows:
  assumes "weather (snd (show_weather_page env city st)) \<noteq> weather st"
  shows "\<exists>js. provider env Weather city = Reply 200 (Some js)"
proof (cases "show_weather_page_try env city (called Weather city st)")
  case (Inl e)
  with assms show ?thesis by (simp add: show_weather_page_def called_def)
next
  case (Inr p)
  obtain r st' where p: "p = (r, st')" by (cases p)
  with Inr assms have "weather st' \<noteq> weather (called Weather city st)"
    by (simp add: show_weather_page_def called_def)
  with Inr p show ?thesis using show_weather_page_try_rows by blast
qed

text \<open>The handlers keep the identifiers growing in the order of insertion.\<close>

lemma api_weather_try_table:
  assumes "api_weather_try env city st = Inr (r, st')"
  shows "weather st' = weather st \<or>
         (\<exists>t d. db_insert env (weather st) city t d (now env) = Inr (weather st'))"
proof (cases "provider env Weather city")
  case NoReply
  with assms show ?thesis by (simp add: api_weather_try_def)
next
  case (Reply status content)
  show ?thesis
  proof (cases "status = 200")
    case False
    with Reply assms show ?thesis by (auto simp: api_weather_try_def)
  next
    case True
    with Reply assms show ?thesis
      by (cases content) (auto simp: api_weather_try_def split: sum.splits)
  qed
qed

lemma show_weather_page_try_table:
  assumes "show_weather_page_try env city st = Inr (r, st')"
  shows "weather st' = weather st \<or>
         (\<exists>t d. db_insert env (weather st) city t d (now env) = Inr (weather st'))"
proof (cases "provider env Weather city")
  case NoReply
  with assms show ?thesis by (simp add: show_weather_page_try_def)
next
  case (Reply status content)
  show ?thesis
  proof (cases "status = 200")
    case False
    with Reply assms show ?thesis by (auto simp: show_weather_page_try_def)
  next
    case True
    with Reply assms show ?thesis
      by (cases content) (auto simp: show_weather_page_try_def split: sum.splits)
  qed
qed

lemma api_weather_ascending:
  assumes "sorted_wrt (<) (map row_id (weather st))"
  shows "sorted_wrt (<) (map row_id (weather (snd (api_weather env request st))))"
proof (cases "weather (snd (api_weather env request st)) = weather st")
  case True
  with assms show ?thesis by simp
next
  case False
  then obtain data c city where
    "request = Some data" "py_get data (str ''city'') (JStr []) = Inr c" "py_strip c = Inr city"
    "city \<noteq> []"
    by (auto simp: api_weather_def split: option.splits sum.splits if_splits)
  then have run: "api_weather env request st =
          (case api_weather_try env city (called Weather city st) of
             Inl e \<Rightarrow> ((ErrorJson e, 500), called Weather city st) | Inr r \<Rightarrow> r)"
    by (simp add: api_weather_def)
  show ?thesis
  proof (cases "api_weather_try env city (called Weather city st)")
    case (Inl e)
    with run assms show ?thesis by (simp add: called_def)
  next
    case (Inr p)
    obtain r st' where p: "p = (r, st')" by (cases p)
    from api_weather_try_table [of env city "called Weather city st" r st'] Inr p
    have "weather st' = weather st \<or>
          (\<exists>t d. db_insert env (weather st) city t d (now env) = Inr (weather st'))"
      by (simp add: called_def)
    with assms have "sorted_wrt (<) (map row_id (weather st'))"
      using db_insert_ascending by auto
    with run Inr p show ?thesis by simp
  qed
qed

lemma show_weather_page_ascending:
  assumes "sorted_wrt (<) (map row_id (weather st))"
  shows "sorted_wrt (<) (map row_id (weather (snd (show_weather_page env city st))))"
proof (cases "show_weather_page_try env city (called Weather city st)")
  case (Inl e)
  with assms show ?thesis by (simp add: show_weather_page_def called_def)
next
  case (Inr p)
  obtain r st' where p: "p = (r, st')" by (cases p)
  from show_weather_page_try_table [of env city "called Weather city st" r st'] Inr p
  have "weather st' = weather st \<or>
        (\<exists>t d. db_insert env (weather st) city t d (now env) = Inr (weather st'))"
    by (simp add: called_def)
  with assms have "sorted_wrt (<) (map row_id (weather st'))"
    using db_insert_ascending by auto
  with Inr p show ?thesis by (simp add: show_weather_page_def)
qed

section \<open>Properties\<close>

subsection \<open>The daily aggregation\<close>

text \<open>
  Claim C1, as stated, fails: the parser accepts the literal \<^verbatim>\<open>NaN\<close> as a temperature,
  and of two samples of one date with the temperatures NaN and 5, in this order, the
  aggregation makes one summary whose minimum and maximum are both NaN, which is not at
  most itself.
\<close>

theorem daily_summary_nan:
  "list_all weather_sample nan_first
   \<and> aggregate (JArr nan_first) =
       Inr [JObj [(str ''date'', JStr (str ''2026-11-04'')), (str ''min'', JFloat NaN),
                  (str ''max'', JFloat NaN)]]
   \<and> \<not> num_le (JFloat NaN) (JFloat NaN)"
  by (simp add: nan_first_def forecast_item_def aggregate_def daily_step_def is_space_def
      py_min_def py_max_def daily_list_def summary_def weather_sample_def date_of_def
      temp_of_def num_le_def str_def)

text \<open>
  Claim C1, amended.  For every sequence of weather samples, the aggregation returns
  summaries, each an object with the fields \<open>date\<close>, \<open>min\<close> and \<open>max\<close>; the minimum is the
  temperature of an input sample whose date component is the date of the summary, and so
  is the maximum; and the minimum is at most the maximum unless the temperature of the
  first sample of that date is NaN, in which case both are NaN.
\<close>

theorem daily_summary_bounds:
  assumes "\<forall>item \<in> set items. weather_sample item"
  shows "\<exists>out. aggregate (JArr items) = Inr out \<and>
           (\<forall>s \<in> set out. \<exists>date lo hi t0.
              s = JObj [(str ''date'', JStr date), (str ''min'', lo), (str ''max'', hi)] \<and>
              (\<exists>i \<in> set items. date_of i = Some date \<and> temp_of i = Some lo) \<and>
              (\<exists>i \<in> set items. date_of i = Some date \<and> temp_of i = Some hi) \<and>
              first_temp items date = Some t0 \<and>
              (if is_nan t0 then is_nan lo \<and> is_nan hi else num_le lo hi))"
proof -
  have "loop_inv [] []" by (simp add: loop_inv_def)
  from daily_loop_inv [OF this assms]
  obtain daily where run: "daily_loop [] items = Inr daily" and inv: "loop_inv items daily"
    by auto
  have "\<exists>date lo hi t0.
          s = JObj [(str ''date'', JStr date), (str ''min'', lo), (str ''max'', hi)] \<and>
          (\<exists>i \<in> set items. date_of i = Some date \<and> temp_of i = Some lo) \<and>
          (\<exists>i \<in> set items. date_of i = Some date \<and> temp_of i = Some hi) \<and>
          first_temp items date = Some t0 \<and>
          (if is_nan t0 then is_nan lo \<and> is_nan hi else num_le lo hi)"
    if "s \<in> set (map summary daily)" for s
  proof -
    from that obtain e where e: "e \<in> set daily" "s = summary e" by auto
    obtain date lo hi where elh: "e = (date, lo, hi)" by (cases e)
    from inv e(1) elh have ok: "entry_ok items (date, lo, hi)" by (simp add: loop_inv_def)
    then obtain t0 where t0: "first_temp items date = Some t0" "around t0 lo hi"
      by (auto simp: entry_ok_def)
    have "if is_nan t0 then is_nan lo \<and> is_nan hi else num_le lo hi"
      using t0(2) by (auto simp: around_def intro: num_le_trans)
    moreover from ok have "\<exists>i \<in> set items. date_of i = Some date \<and> temp_of i = Some lo"
      "\<exists>i \<in> set items. date_of i = Some date \<and> temp_of i = Some hi"
      by (auto simp: entry_ok_def)
    moreover have "s = JObj [(str ''date'', JStr date), (str ''min'', lo), (str ''max'', hi)]"
      using e(2) elh by (simp add: summary_def)
    ultimately show ?thesis using t0(1) by blast
  qed
  with run show ?thesis by (simp add: aggregate_def daily_list_def)
qed

theorem daily_summary_bounds_witness:
  "aggregate (JArr two_days) =
     Inr [JObj [(str ''date'', JStr (str ''2026-11-04'')), (str ''min'', JFloat (Finite 7.5)),
                (str ''max'', JInt 11)],
          JObj [(str ''date'', JStr (str ''2026-11-05'')), (str ''min'', JFloat (Finite 3.25)),
                (str ''max'', JFloat (Finite 3.25))]]
   \<and> first_temp two_days (str ''2026-11-04'') = Some (JFloat (Finite 7.5))
   \<and> first_temp two_days (str ''2026-11-05'') = Some (JFloat (Finite 3.25))
   \<and> num_le (JFloat (Finite 7.5)) (JInt 11)
   \<and> num_le (JFloat (Finite 3.25)) (JFloat (Finite 3.25))"
  using daily_summary_bounds [of two_days]
  by (simp add: two_days_def forecast_item_def aggregate_def daily_step_def is_space_def
      py_min_def py_max_def daily_list_def summary_def num_le_def first_temp_def date_of_def
      temp_of_def str_def)

text \<open>
  Claim C2.  For every sequence of weather samples, the aggregation returns one summary
  for each distinct date of the input: the dates of the summaries, in the order of the
  output, are the distinct dates of the input in the order of their first occurrence, and
  the number of summaries is the number of distinct dates.
\<close>

theorem daily_one_per_date:
  assumes "\<forall>item \<in> set items. weather_sample item"
  shows "\<exists>out. aggregate (JArr items) = Inr out \<and>
           map (\<lambda>s. py_getitem s (str ''date'')) out =
             map (\<lambda>d. Inr (JStr d)) (first_occurrences (List.map_filter date_of items)) \<and>
           length out = card (set (List.map_filter date_of items))"
proof -
  have "loop_inv [] []" by (simp add: loop_inv_def)
  from daily_loop_inv [OF this assms]
  obtain daily where run: "daily_loop [] items = Inr daily" by auto
  from assms have "\<forall>item \<in> set items. date_of item \<noteq> None" by (simp add: weather_sample_def)
  from daily_loop_keys [OF this run]
  have keys: "map fst daily = first_occurrences (List.map_filter date_of items)" by simp
  have "map (\<lambda>s. py_getitem s (str ''date'')) (map summary daily) =
        map (\<lambda>d. Inr (JStr d)) (map fst daily)"
    by (simp add: summary_def)
  moreover have "length (map summary daily) = length (map fst daily)" by simp
  moreover have "length (first_occurrences ds) = card (set ds)" for ds :: "pystr list"
    using distinct_card [OF first_occurrences_distinct, of ds] by (simp add: first_occurrences_set)
  ultimately show ?thesis using run keys by (simp add: aggregate_def daily_list_def)
qed

theorem daily_one_per_date_witness:
  "aggregate (JArr three_days) =
     Inr [JObj [(str ''date'', JStr (str ''2026-11-06'')), (str ''min'', JInt 1), (str ''max'', JInt 4)],
          JObj [(str ''date'', JStr (str ''2026-11-05'')), (str ''min'', JInt 2), (str ''max'', JInt 3)],
          JObj [(str ''date'', JStr (str ''2026-11-07'')), (str ''min'', JInt 0), (str ''max'', JInt 0)]]
   \<and> first_occurrences (List.map_filter date_of three_days) =
       [str ''2026-11-06'', str ''2026-11-05'', str ''2026-11-07'']"
  using daily_one_per_date [of three_days]
  by (simp add: three_days_def forecast_item_def aggregate_def daily_step_def is_space_def
      py_min_def py_max_def daily_list_def summary_def date_of_def List.map_filter_simps str_def)

text \<open>
  Claim C3.  Aggregating the three samples of the specification's example, dated 01-01,
  01-01 and 01-02 with temperatures 10, 15 and 5, gives exactly two summaries, in this
  order: 01-01 with minimum 10 and maximum 15, then 01-02 with minimum and maximum 5.
\<close>

theorem aggregate_example:
  "aggregate (JArr [forecast_item (str ''01-01'') (JInt 10), forecast_item (str ''01-01'') (JInt 15),
                    forecast_item (str ''01-02'') (JInt 5)])
   = Inr [JObj [(str ''date'', JStr (str ''01-01'')), (str ''min'', JInt 10), (str ''max'', JInt 15)],
          JObj [(str ''date'', JStr (str ''01-02'')), (str ''min'', JInt 5), (str ''max'', JInt 5)]]"
  by (simp add: aggregate_def forecast_item_def daily_step_def is_space_def py_min_def py_max_def
      daily_list_def summary_def str_def)

text \<open>
  Claim C4.  Aggregating the empty sequence of samples gives the empty sequence of
  summaries.
\<close>

theorem aggregate_empty: "aggregate (JArr []) = Inr []"
  by (simp add: aggregate_def daily_list_def)

subsection \<open>A provider that does not answer 200\<close>

text \<open>
  Claim C5.  When the provider answers a call with a status other than 200, every handler
  that made the call answers 404 with its "not found" message, and the table is left as it
  was: \<^verbatim>\<open>POST /api/weather\<close> (for a request whose city is a string not blank),
  \<^verbatim>\<open>/weather/<city>\<close> and \<^verbatim>\<open>/today\<close> on the current-weather endpoint,
  \<^verbatim>\<open>/hourly\<close>, \<^verbatim>\<open>/daily\<close> and \<^verbatim>\<open>/weekly\<close> on the forecast endpoint.
\<close>

theorem provider_error_is_404:
  "(provider env Weather city = Reply status content \<and> status \<noteq> 200 \<longrightarrow>
      (map_of kvs (str ''city'') = Some (JStr raw) \<and> strip raw = city \<and> city \<noteq> [] \<longrightarrow>
         api_weather env (Some (JObj kvs)) st =
           ((Json (JObj [(str ''error'', JStr (str ''City not found or API error''))]), 404),
            called Weather city st))
      \<and> show_weather_page env city st =
           ((Text (str ''No data found for '' @ quoted city), 404), called Weather city st)
      \<and> today_weather env city st =
           ((Text (str ''No data found for '' @ quoted city), 404), called Weather city st)
      \<and> weather (called Weather city st) = weather st)
   \<and> (provider env Forecast city = Reply status content \<and> status \<noteq> 200 \<longrightarrow>
      hourly_weather env city st =
           ((Text (str ''No hourly data found for '' @ quoted city), 404), called Forecast city st)
      \<and> daily_weather env city st =
           ((Text (str ''No daily data found for '' @ quoted city), 404), called Forecast city st)
      \<and> weekly_weather env city st =
           ((Text (str ''No daily data found for '' @ quoted city), 404), called Forecast city st)
      \<and> weather (called Forecast city st) = weather st)"
  by (simp add: api_weather_def api_weather_try_def show_weather_page_def
      show_weather_page_try_def today_weather_def today_weather_try_def hourly_weather_def
      hourly_weather_try_def daily_weather_def daily_weather_try_def weekly_weather_def
      called_def)

theorem provider_error_is_404_witness:
  "api_weather (answering (Reply 404 None)) (Some (JObj [(str ''city'', JStr (str '' Oslo ''))])) fresh =
     ((Json (JObj [(str ''error'', JStr (str ''City not found or API error''))]), 404),
      \<lparr>weather = [], calls = [(Weather, str ''Oslo'')]\<rparr>)
   \<and> show_weather_page (answering (Reply 404 None)) (str ''Oslo'') fresh =
     ((Text (str ''No data found for '' @ quoted (str ''Oslo'')), 404),
      \<lparr>weather = [], calls = [(Weather, str ''Oslo'')]\<rparr>)
   \<and> today_weather (answering (Reply 404 None)) (str ''Oslo'') fresh =
     ((Text (str ''No data found for '' @ quoted (str ''Oslo'')), 404),
      \<lparr>weather = [], calls = [(Weather, str ''Oslo'')]\<rparr>)
   \<and> hourly_weather (answering (Reply 404 None)) (str ''Oslo'') fresh =
     ((Text (str ''No hourly data found for '' @ quoted (str ''Oslo'')), 404),
      \<lparr>weather = [], calls = [(Forecast, str ''Oslo'')]\<rparr>)
   \<and> daily_weather (answering (Reply 404 None)) (str ''Oslo'') fresh =
     ((Text (str ''No daily data found for '' @ quoted (str ''Oslo'')), 404),
      \<lparr>weather = [], calls = [(Forecast, str ''Oslo'')]\<rparr>)
   \<and> weekly_weather (answering (Reply 404 None)) (str ''Oslo'') fresh =
     ((Text (str ''No daily data found for '' @ quoted (str ''Oslo'')), 404),
      \<lparr>weather = [], calls = [(Forecast, str ''Oslo'')]\<rparr>)"
  using provider_error_is_404 [of "answering (Reply 404 None)" "str ''Oslo''" 404 None
      "[(str ''city'', JStr (str '' Oslo ''))]" "str '' Oslo ''" fresh]
  by (simp add: answering_def fresh_def called_def strip_def is_space_def str_def)

subsection \<open>The history\<close>

text \<open>
  Claim C6.  In every state of the table (its identifiers are distinct, being a primary
  key), \<^verbatim>\<open>GET /api/history\<close> answers 200 with a list of records, one for each of at most
  six rows of the table, each record holding the city, the temperature, the description
  and the time of its row; the rows are in strictly descending order of identifier, and
  every row left out has a smaller identifier than every row returned.  Where the
  identifiers grow in the order of insertion, as \<^verbatim>\<open>AUTOINCREMENT\<close> gives them, the rows
  are the last six inserted, the most recent first.
\<close>

theorem history_recent_six:
  assumes "distinct (map row_id (weather st))"
  shows "\<exists>rows.
           api_history st =
             ((Json (JArr (map (\<lambda>r. JObj [(str ''city'', row_city r),
                                            (str ''temperature'', row_temperature r),
                                            (str ''description'', row_description r),
                                            (str ''dt'', row_dt r)]) rows)), 200), st)
         \<and> length rows \<le> 6
         \<and> length rows = min 6 (length (weather st))
         \<and> set rows \<subseteq> set (weather st)
         \<and> sorted_wrt (\<lambda>a b. row_id a > row_id b) rows
         \<and> (\<forall>r \<in> set (weather st). r \<notin> set rows \<longrightarrow> (\<forall>q \<in> set rows. row_id r < row_id q))
         \<and> (sorted_wrt (<) (map row_id (weather st)) \<longrightarrow> rows = take 6 (rev (weather st)))"
proof -
  let ?rows = "db_recent (weather st)"
  have "api_history st =
          ((Json (JArr (map (\<lambda>r. JObj [(str ''city'', row_city r),
                                         (str ''temperature'', row_temperature r),
                                         (str ''description'', row_description r),
                                         (str ''dt'', row_dt r)]) ?rows)), 200), st)"
    by (simp add: api_history_def row_dict_def)
  moreover have "length ?rows \<le> 6"
    by (simp add: db_recent_length)
  moreover have "\<forall>r \<in> set (weather st). r \<notin> set ?rows \<longrightarrow>
            (\<forall>q \<in> set ?rows. row_id r < row_id q)"
    using db_recent_newest [OF assms] by blast
  ultimately show ?thesis
    using db_recent_length [of "weather st"] db_recent_subset [of "weather st"]
      db_recent_descending [OF assms] db_recent_insertion_order [of "weather st"]
    by blast
qed

theorem history_recent_six_witness:
  "map row_id (weather logged) = [1, 2, 3, 4, 5, 6, 7]
   \<and> api_history logged =
       ((Json (JArr
            [JObj [(str ''city'', JStr (str ''Oslo'')), (str ''temperature'', JFloat (Finite 7)),
                  (str ''description'', JStr (str ''rain'')),
                  (str ''dt'', JStr (str ''04-Nov-2026 07:01:00 PM''))],
             JObj [(str ''city'', JStr (str ''Oslo'')), (str ''temperature'', JFloat (Finite 6)),
                  (str ''description'', JStr (str ''rain'')),
                  (str ''dt'', JStr (str ''04-Nov-2026 07:01:00 PM''))],
             JObj [(str ''city'', JStr (str ''Oslo'')), (str ''temperature'', JFloat (Finite 5)),
                  (str ''description'', JStr (str ''rain'')),
                  (str ''dt'', JStr (str ''04-Nov-2026 07:01:00 PM''))],
             JObj [(str ''city'', JStr (str ''Oslo'')), (str ''temperature'', JFloat (Finite 4)),
                  (str ''description'', JStr (str ''rain'')),
                  (str ''dt'', JStr (str ''04-Nov-2026 07:01:00 PM''))],
             JObj [(str ''city'', JStr (str ''Oslo'')), (str ''temperature'', JFloat (Finite 3)),
                  (str ''description'', JStr (str ''rain'')),
                  (str ''dt'', JStr (str ''04-Nov-2026 07:01:00 PM''))],
             JObj [(str ''city'', JStr (str ''Oslo'')), (str ''temperature'', JFloat (Finite 2)),
                  (str ''description'', JStr (str ''rain'')),
                  (str ''dt'', JStr (str ''04-Nov-2026 07:01:00 PM''))]]), 200),
        logged)"
  using history_recent_six [of logged]
  by (simp add: logged_def api_history_def db_recent_def row_dict_def)

subsection \<open>A request without a city\<close>

text \<open>
  Claim C7.  When the JSON object posted to \<^verbatim>\<open>/api/weather\<close> has no field \<open>city\<close>, or
  has one that is a string which strips to the empty string, the response is the object
  \<^verbatim>\<open>{"error": "City required"}\<close> with status 400 and the state is unchanged: no call to
  the provider is logged and no row is inserted.
\<close>

theorem api_weather_city_required:
  assumes "map_of kvs (str ''city'') = None \<or>
           (\<exists>s. map_of kvs (str ''city'') = Some (JStr s) \<and> strip s = [])"
  shows "api_weather env (Some (JObj kvs)) st =
           ((Json (JObj [(str ''error'', JStr (str ''City required''))]), 400), st)"
  using assms by (auto simp: api_weather_def strip_def)

theorem api_weather_city_required_witness:
  "api_weather (answering NoReply) (Some (JObj [(str ''city'', JStr [0xA0, 0x20, 0x3000, 0x9])])) fresh =
     ((Json (JObj [(str ''error'', JStr (str ''City required''))]), 400), fresh)"
  using api_weather_city_required
    [of "[(str ''city'', JStr [0xA0, 0x20, 0x3000, 0x9])]" "answering NoReply" fresh]
  by (simp add: strip_def is_space_def)

subsection \<open>The weekly view\<close>

text \<open>
  Claim C8.  For every city, in every environment and state, the weekly view gives the
  response of the daily view and leaves the same state: it only delegates to it.
\<close>

theorem weekly_is_daily: "weekly_weather env city st = daily_weather env city st"
  by (simp add: weekly_weather_def)

subsection \<open>The hourly view\<close>

text \<open>
  Claim C9.  When the forecast endpoint answers 200 with a JSON object whose \<open>list\<close> is
  an array (or is absent, which counts as the empty array), the hourly view renders
  \<^verbatim>\<open>hourly.html\<close> with the first eight entries of that array, in the provider's order:
  at most eight entries, the \<open>i\<close>-th of them the \<open>i\<close>-th of the provider, and the whole
  array when it has no more than eight.
\<close>

theorem hourly_first_eight:
  assumes "provider env Forecast city = Reply 200 (Some (JObj kvs))"
    and "map_of kvs (str ''list'') = Some (JArr xs) \<or> (map_of kvs (str ''list'') = None \<and> xs = [])"
  shows "hourly_weather env city st =
           ((Page ''hourly.html'' [(''city'', JStr city), (''data'', JArr (take 8 xs))], 200),
            called Forecast city st)
         \<and> length (take 8 xs) \<le> 8
         \<and> (\<forall>i < length (take 8 xs). take 8 xs ! i = xs ! i)
         \<and> (length xs \<le> 8 \<longrightarrow> take 8 xs = xs)"
  using assms by (auto simp: hourly_weather_def hourly_weather_try_def called_def)

theorem hourly_first_eight_witness:
  "hourly_weather (answering (Reply 200 (Some (JObj [(str ''list'', JArr ten_entries)]))))
     (str ''Oslo'') fresh =
     ((Page ''hourly.html''
         [(''city'', JStr (str ''Oslo'')), (''data'', JArr (map JInt [1, 2, 3, 4, 5, 6, 7, 8]))], 200),
      called Forecast (str ''Oslo'') fresh)"
  using hourly_first_eight [of "answering (Reply 200 (Some (JObj [(str ''list'', JArr ten_entries)])))"
      "str ''Oslo''" "[(str ''list'', JArr ten_entries)]" ten_entries fresh]
  by (simp add: answering_def ten_entries_def)

subsection \<open>A reply without temperature or description\<close>

text \<open>
  Claim C10, as stated, fails: the reply 200 with the body \<^verbatim>\<open>{"main": null}\<close> has no
  \<open>main.temp\<close> and no \<open>weather\<close>, and \<^verbatim>\<open>POST /api/weather\<close> answers it with 500 and
  inserts nothing, since \<^verbatim>\<open>js.get("main", {})\<close> is then \<^verbatim>\<open>None\<close>, which has no
  \<^verbatim>\<open>get\<close>.
\<close>

theorem api_weather_null_main:
  "api_weather (answering (Reply 200 (Some (JObj [(str ''main'', JNull)]))))
     (Some (JObj [(str ''city'', JStr (str ''Oslo''))])) fresh =
   ((ErrorJson AttributeError, 500), \<lparr>weather = [], calls = [(Weather, str ''Oslo'')]\<rparr>)"
  by (simp add: api_weather_def api_weather_try_def answering_def fresh_def called_def
      strip_def is_space_def str_def)

text \<open>
  Claim C10, amended.  Take a request whose city is a string not blank, and a reply 200
  whose body is a JSON object.  When \<open>main\<close> is absent or an object, and \<open>weather\<close> is
  absent, false as a truth value (null, the empty array) or an array that begins with an
  object, \<^verbatim>\<open>POST /api/weather\<close> answers 200 and inserts one row, provided the values
  found can be bound.  The temperature answered is \<open>main.temp\<close>, and null when \<open>main\<close>
  or \<open>main.temp\<close> is absent; the description answered is that of the first element of
  \<open>weather\<close>, and the empty string when \<open>weather\<close> or that field is absent; the row
  holds what the columns make of them: null and the empty string as they are, a number as
  a float in the temperature and as its text in the description.  When \<open>main\<close> is present
  and not an object, the answer is 500 with the message of the exception, a call was made
  and no row is inserted.
\<close>

theorem api_weather_missing_fields:
  assumes city: "map_of req (str ''city'') = Some (JStr raw)" "strip raw = city" "city \<noteq> []"
    and reply: "provider env Weather city = Reply 200 (Some (JObj kvs))"
  shows "(((map_of kvs (str ''main'') = None \<and> t = JNull) \<or>
           (\<exists>m. map_of kvs (str ''main'') = Some (JObj m) \<and>
                t = (case map_of m (str ''temp'') of None \<Rightarrow> JNull | Some v \<Rightarrow> v))) \<and>
          ((map_of kvs (str ''weather'') = None \<and> d = JStr []) \<or>
           (\<exists>w. map_of kvs (str ''weather'') = Some w \<and> \<not> py_truthy w \<and> d = JStr []) \<or>
           (\<exists>w ws. map_of kvs (str ''weather'') = Some (JArr (JObj w # ws)) \<and>
                d = (case map_of w (str ''description'') of None \<Rightarrow> JStr [] | Some v \<Rightarrow> v))) \<and>
          encodable city \<and> sqlite_bind t = Inr t \<and> sqlite_bind d = Inr d \<and>
          encodable (now env) \<longrightarrow>
          api_weather env (Some (JObj req)) st =
            ((Json (JObj [(str ''city'', JStr city), (str ''temperature'', t),
                          (str ''description'', d), (str ''dt'', JStr (now env))]), 200),
             \<lparr>weather = weather st @
                  [\<lparr>row_id = next_id (weather st), row_city = JStr city,
                    row_temperature = real_affinity env t,
                    row_description = text_affinity env d, row_dt = JStr (now env)\<rparr>],
              calls = calls st @ [(Weather, city)]\<rparr>))
       \<and> (map_of kvs (str ''main'') = Some v \<and> \<not> is_dict v \<longrightarrow>
          api_weather env (Some (JObj req)) st =
            ((ErrorJson AttributeError, 500),
             \<lparr>weather = weather st, calls = calls st @ [(Weather, city)]\<rparr>))"
proof -
  have run: "api_weather env (Some (JObj req)) st =
          (case api_weather_try env city (called Weather city st) of
             Inl e \<Rightarrow> ((ErrorJson e, 500), called Weather city st) | Inr r \<Rightarrow> r)"
    using city by (simp add: api_weather_def)
  have A: "api_weather env (Some (JObj req)) st =
            ((Json (JObj [(str ''city'', JStr city), (str ''temperature'', t),
                          (str ''description'', d), (str ''dt'', JStr (now env))]), 200),
             \<lparr>weather = weather st @
                  [\<lparr>row_id = next_id (weather st), row_city = JStr city,
                    row_temperature = real_affinity env t,
                    row_description = text_affinity env d, row_dt = JStr (now env)\<rparr>],
              calls = calls st @ [(Weather, city)]\<rparr>)"
    if main: "(map_of kvs (str ''main'') = None \<and> t = JNull) \<or>
           (\<exists>m. map_of kvs (str ''main'') = Some (JObj m) \<and>
                t = (case map_of m (str ''temp'') of None \<Rightarrow> JNull | Some v \<Rightarrow> v))"
      and weather: "(map_of kvs (str ''weather'') = None \<and> d = JStr []) \<or>
           (\<exists>w. map_of kvs (str ''weather'') = Some w \<and> \<not> py_truthy w \<and> d = JStr []) \<or>
           (\<exists>w ws. map_of kvs (str ''weather'') = Some (JArr (JObj w # ws)) \<and>
                d = (case map_of w (str ''description'') of None \<Rightarrow> JStr [] | Some v \<Rightarrow> v))"
      and bind: "encodable city" "sqlite_bind t = Inr t" "sqlite_bind d = Inr d"
        "encodable (now env)"
  proof -
    from main have m: "\<exists>m. py_get (JObj kvs) (str ''main'') (JObj []) = Inr m
        \<and> py_get m (str ''temp'') JNull = Inr t"
      by auto
    from weather have w: "\<exists>w w0. py_get (JObj kvs) (str ''weather'') JNull = Inr w
        \<and> py_index0 (if py_truthy w then w else JArr [JObj []]) = Inr w0
        \<and> py_get w0 (str ''description'') (JStr []) = Inr d"
      by auto
    from bind have ins: "db_insert env (weather st) city t d (now env) =
        Inr (weather st @
              [\<lparr>row_id = next_id (weather st), row_city = JStr city,
                row_temperature = real_affinity env t,
                row_description = text_affinity env d, row_dt = JStr (now env)\<rparr>])"
      by (simp add: db_insert_def)
    from m w ins reply have "api_weather_try env city (called Weather city st) =
        Inr ((Json (JObj [(str ''city'', JStr city), (str ''temperature'', t),
                          (str ''description'', d), (str ''dt'', JStr (now env))]), 200),
             \<lparr>weather = weather st @
                  [\<lparr>row_id = next_id (weather st), row_city = JStr city,
                    row_temperature = real_affinity env t,
                    row_description = text_affinity env d, row_dt = JStr (now env)\<rparr>],
              calls = calls st @ [(Weather, city)]\<rparr>)"
      by (auto simp: api_weather_try_def called_def)
    with run show ?thesis by simp
  qed
  have B: "api_weather env (Some (JObj req)) st =
            ((ErrorJson AttributeError, 500),
             \<lparr>weather = weather st, calls = calls st @ [(Weather, city)]\<rparr>)"
    if v: "map_of kvs (str ''main'') = Some v" "\<not> is_dict v"
  proof -
    from v(2) have "py_get v (str ''temp'') JNull = Inl AttributeError"
      by (cases v) simp_all
    with v(1) reply have "api_weather_try env city (called Weather city st) = Inl AttributeError"
      by (simp add: api_weather_try_def)
    with run show ?thesis by (simp add: called_def)
  qed
  from A B show ?thesis by blast
qed

theorem api_weather_missing_fields_witness:
  "api_weather (answering (Reply 200 (Some (JObj [(str ''weather'', JArr [JObj [(str ''description'', JInt 5)]])]))))
     (Some (JObj [(str ''city'', JStr (str ''Oslo''))])) fresh =
     ((Json (JObj [(str ''city'', JStr (str ''Oslo'')), (str ''temperature'', JNull),
                   (str ''description'', JInt 5),
                   (str ''dt'', JStr (str ''04-Nov-2026 07:01:00 PM''))]), 200),
      \<lparr>weather = [\<lparr>row_id = 1, row_city = JStr (str ''Oslo''), row_temperature = JNull,
                    row_description = JStr (str ''5''),
                    row_dt = JStr (str ''04-Nov-2026 07:01:00 PM'')\<rparr>],
       calls = [(Weather, str ''Oslo'')]\<rparr>)
   \<and> api_weather (answering (Reply 200 (Some (JObj [(str ''main'', JStr (str ''mild''))]))))
     (Some (JObj [(str ''city'', JStr (str ''Oslo''))])) fresh =
     ((ErrorJson AttributeError, 500), \<lparr>weather = [], calls = [(Weather, str ''Oslo'')]\<rparr>)"
  using api_weather_missing_fields
      [where req = "[(str ''city'', JStr (str ''Oslo''))]" and raw = "str ''Oslo''"
        and city = "str ''Oslo''"
        and env = "answering (Reply 200 (Some (JObj [(str ''weather'', JArr [JObj [(str ''description'', JInt 5)]])])))"
        and kvs = "[(str ''weather'', JArr [JObj [(str ''description'', JInt 5)]])]"
        and t = JNull and d = "JInt 5" and st = fresh and v = JNull]
    api_weather_missing_fields
      [where req = "[(str ''city'', JStr (str ''Oslo''))]" and raw = "str ''Oslo''"
        and city = "str ''Oslo''"
        and env = "answering (Reply 200 (Some (JObj [(str ''main'', JStr (str ''mild''))])))"
        and kvs = "[(str ''main'', JStr (str ''mild''))]"
        and t = JNull and d = "JStr []" and st = fresh and v = "JStr (str ''mild'')"]
  by (simp add: answering_def fresh_def strip_def is_space_def next_id_def encodable_def
      decimal_def digits.simps str_def)

end
